theory Spec2Isabelle
  imports Main
begin

section \<open>Strings and characters\<close>

text \<open>
  JavaScript strings are modelled as \<open>string\<close>. The three characters that the
  escaping code treats specially are named: the double quote, the single quote and
  the line feed.
\<close>

definition dq :: char where
  "dq = CHR 0x22"

definition sq :: char where
  "sq = CHR 0x27"

definition nl :: char where
  "nl = CHR 0x0A"

text \<open>\<open>s.replace(/c/g, r)\<close> for a one-character pattern \<open>c\<close>.\<close>

definition replaceAll :: "char \<Rightarrow> string \<Rightarrow> string \<Rightarrow> string" where
  "replaceAll c r s = concat (map (\<lambda>x. if x = c then r else [x]) s)"

text \<open>\<open>xs.join(sep)\<close> on an array of strings.\<close>

fun join_with :: "string \<Rightarrow> string list \<Rightarrow> string" where
  "join_with sep [] = []"
| "join_with sep [x] = x"
| "join_with sep (x # y # ys) = x @ sep @ join_with sep (y # ys)"

section \<open>sql.ts: identifier escaping\<close>

text \<open>The character class \<open>[a-zA-Z0-9_]\<close>.\<close>

definition isSafeChar :: "char \<Rightarrow> bool" where
  "isSafeChar c \<longleftrightarrow>
     List.member ''abcdefghijklmnopqrstuvwxyzABCDEFGHIJKLMNOPQRSTUVWXYZ0123456789_'' c"

text \<open>
  \<^verbatim>\<open>
  export function escapeIdentifier(identifier: string): string {
    if (/[^a-zA-Z0-9_]/.test(identifier)) {
      return `"${identifier.replace(/"/g, '""')}"`;
    }
    return identifier;
  }
  \<close>
\<close>

definition escapeIdentifier :: "string \<Rightarrow> string" where
  "escapeIdentifier identifier =
     (if list_ex (\<lambda>c. \<not> isSafeChar c) identifier
      then [dq] @ replaceAll dq [dq, dq] identifier @ [dq]
      else identifier)"

section \<open>Errors\<close>

text \<open>
  Every \<open>throw\<close> of the source is a value. \<open>Error msg\<close> is \<open>new Error(msg)\<close>;
  \<open>RangeError\<close> is what the built-in \<open>Date.prototype.toISOString\<close> raises on an
  invalid date; \<open>StructuralError\<close> is the error of the policy builder, whose message
  the specification does not give.
\<close>

datatype error = Error string | RangeError | StructuralError

definition bindR :: "error + 'a \<Rightarrow> ('a \<Rightarrow> error + 'b) \<Rightarrow> error + 'b" where
  "bindR m f = (case m of Inl e \<Rightarrow> Inl e | Inr x \<Rightarrow> f x)"

text \<open>\<open>xs.map(f)\<close> where \<open>f\<close> may throw: the first exception leaves the loop.\<close>

fun collect :: "(error + 'a) list \<Rightarrow> error + 'a list" where
  "collect [] = Inr []"
| "collect (r # rs) =
     (case r of
        Inl e \<Rightarrow> Inl e
      | Inr x \<Rightarrow> (case collect rs of Inl e \<Rightarrow> Inl e | Inr xs \<Rightarrow> Inr (x # xs)))"

section \<open>types.ts: the condition tree\<close>

text \<open>
  A \<open>Date\<close> object either holds a valid time value or is an invalid date
  (\<open>new Date(NaN)\<close>). \<open>toISOString\<close> is a built-in: a valid date is represented by
  the ISO-8601 text the built-in returns for it, an invalid date makes it raise
  \<open>RangeError\<close>.
\<close>

datatype jsdate = ValidDate string | InvalidDate

definition toISOString :: "jsdate \<Rightarrow> error + string" where
  "toISOString d = (case d of ValidDate t \<Rightarrow> Inr t | InvalidDate \<Rightarrow> Inl RangeError)"

datatype ComparisonOperator = OpEq | OpNeq | OpGt | OpGte | OpLt | OpLte

datatype PatternOperator = OpLike | OpILike

datatype LogicalOperator = AND | OR

datatype NullValue = IsNull | IsNotNull

datatype JoinType = JInner | JLeft | JRight | JFull

datatype SessionVariableType = TyText | TyInteger | TyUuid | TyBoolean | TyTimestamp

datatype ContextValue = AuthUid | Session string SessionVariableType | CurrentUser

text \<open>
  The helper conditions, with their \<open>params\<close> object:
  \<open>IsMemberOf joinTable foreignKey localKey\<close>, \<open>HasRole role userRolesTable\<close>.
\<close>

datatype HelperCondition = IsMemberOf string string string | HasRole string string | AlwaysTrue

datatype SelectColumns = SelectOne string | SelectMany "string list"

text \<open>
  A condition is an object with a \<open>type\<close> tag, its fields and a \<open>toSQL\<close> closure
  fixed by the builder call that made it; the model has one constructor per builder
  call and \<open>toSQL\<close> below computes what the closure computes. Numbers are modelled
  as integers (the safe integers, whose \<open>String(n)\<close> is the decimal numeral).
  \<open>VSql\<close> is an \<open>SQLExpression\<close>; \<open>VOther s\<close> is a value of any other shape, given
  by the text \<open>s\<close> that \<open>String(value)\<close> yields. A membership condition made by
  \<open>in\<close> holds either the literal values or the subquery builder; the builder is a
  value here, a snapshot of the object at the call.
\<close>

datatype SqlValue =
    VNull
  | VBool bool
  | VNum int
  | VDate jsdate
  | VSql string
  | VArr "SqlValue list"
  | VStr string
  | VCond Condition
  | VOther string
and Condition =
    Comparison string ComparisonOperator SqlValue
  | Pattern string PatternOperator string
  | MembershipIn string InValues
  | MembershipContains string SqlValue
  | Null string NullValue
  | Logical LogicalOperator "Condition list"
  | Helper HelperCondition
  | Function string "FunctionArg list"
  | Context ContextValue
and FunctionArg = ArgString string | ArgCondition Condition
and InValues = InList "SqlValue list" | InSubquery SubqueryBuilder
and SubqueryBuilder =
    SubqueryBuilder (b_from: string) (b_fromAlias: "string option") (b_select: SelectColumns)
      (b_where: "Condition option") (b_joins: "JoinEntry list")
and JoinEntry =
    JoinEntry (j_table: string) (j_alias: "string option") (j_on: Condition)
      (j_type: "JoinType option")

record JoinDefinition =
  jd_table :: string
  jd_alias :: "string option"
  jd_on :: Condition
  jd_type :: "JoinType option"

record SubqueryDefinition =
  sd_from :: string
  sd_select :: SelectColumns
  sd_alias :: "string option"
  sd_where :: "Condition option"
  sd_join :: "JoinDefinition option"

section \<open>Truthiness of optional strings\<close>

text \<open>
  An optional string parameter is \<open>undefined\<close> (\<open>None\<close>) or a string; the source
  tests it with \<open>x ? \<dots>\<close> and \<open>x || y\<close>, where both \<open>undefined\<close> and the empty
  string are falsy.
\<close>

definition truthy :: "string option \<Rightarrow> bool" where
  "truthy x = (case x of None \<Rightarrow> False | Some s \<Rightarrow> s \<noteq> [])"

definition orElse :: "string option \<Rightarrow> string \<Rightarrow> string" where
  "orElse x y = (case x of None \<Rightarrow> y | Some s \<Rightarrow> if s \<noteq> [] then s else y)"

section \<open>Decimal text of a number\<close>

definition digit_char :: "nat \<Rightarrow> char" where
  "digit_char d = ''0123456789'' ! (d mod 10)"

fun decimalDigits :: "nat \<Rightarrow> string" where
  "decimalDigits n = (if 10 \<le> n then decimalDigits (n div 10) else []) @ [digit_char n]"

declare decimalDigits.simps [simp del]

text \<open>\<open>String(value)\<close> for an integer-valued number.\<close>

definition numberToString :: "int \<Rightarrow> string" where
  "numberToString n =
     (if 0 \<le> n then decimalDigits (nat n) else CHR ''-'' # decimalDigits (nat (- n)))"

section \<open>context.ts: context leaves\<close>

text \<open>
  \<^verbatim>\<open>
  const typeCast = type === "integer" ? "::INTEGER" : type === "uuid" ? "::UUID"
    : type === "boolean" ? "::BOOLEAN" : type === "timestamp" ? "::TIMESTAMP" : "";
  return `current_setting('${key}', true)${typeCast}`;
  \<close>
\<close>

definition typeCast :: "SessionVariableType \<Rightarrow> string" where
  "typeCast t =
     (if t = TyInteger then ''::INTEGER''
      else if t = TyUuid then ''::UUID''
      else if t = TyBoolean then ''::BOOLEAN''
      else if t = TyTimestamp then ''::TIMESTAMP''
      else [])"

fun contextToSQL :: "ContextValue \<Rightarrow> string" where
  "contextToSQL AuthUid = ''auth.uid()''"
| "contextToSQL (Session key t) =
     ''current_setting('' @ [sq] @ key @ [sq] @ '', true)'' @ typeCast t"
| "contextToSQL CurrentUser = ''current_user''"

section \<open>subquery-builder.ts: toSubquery\<close>

text \<open>
  \<open>toSubquery\<close> copies the alias only when it is truthy, the where-condition when
  there is one, and of the joins only \<open>this._joins[0]\<close>.
\<close>

definition toJoinDefinition :: "JoinEntry \<Rightarrow> JoinDefinition" where
  "toJoinDefinition j =
     \<lparr>jd_table = j_table j, jd_alias = j_alias j, jd_on = j_on j, jd_type = j_type j\<rparr>"

definition toSubquery :: "SubqueryBuilder \<Rightarrow> SubqueryDefinition" where
  "toSubquery b =
     \<lparr>sd_from = b_from b,
      sd_select = b_select b,
      sd_alias = (if truthy (b_fromAlias b) then b_fromAlias b else None),
      sd_where = b_where b,
      sd_join = (case b_joins b of [] \<Rightarrow> None | j # _ \<Rightarrow> Some (toJoinDefinition j))\<rparr>"

section \<open>sql.ts and column.ts: rendering\<close>

definition operatorMap :: "ComparisonOperator \<Rightarrow> string" where
  "operatorMap operator =
     (case operator of
        OpEq \<Rightarrow> ''=''
      | OpNeq \<Rightarrow> ''!=''
      | OpGt \<Rightarrow> ''>''
      | OpGte \<Rightarrow> ''>=''
      | OpLt \<Rightarrow> ''<''
      | OpLte \<Rightarrow> ''<='')"

definition patternKeyword :: "PatternOperator \<Rightarrow> string" where
  "patternKeyword operator = (case operator of OpLike \<Rightarrow> ''LIKE'' | OpILike \<Rightarrow> ''ILIKE'')"

definition logicalKeyword :: "LogicalOperator \<Rightarrow> string" where
  "logicalKeyword operator = (case operator of AND \<Rightarrow> ''AND'' | OR \<Rightarrow> ''OR'')"

text \<open>\<open>(type || "inner").toUpperCase()\<close>\<close>

definition joinTypeUpper :: "JoinType option \<Rightarrow> string" where
  "joinTypeUpper t =
     (case t of
        None \<Rightarrow> ''INNER''
      | Some JInner \<Rightarrow> ''INNER''
      | Some JLeft \<Rightarrow> ''LEFT''
      | Some JRight \<Rightarrow> ''RIGHT''
      | Some JFull \<Rightarrow> ''FULL'')"

text \<open>\<open>alias ? ` ${escapeIdentifier(alias)}` : ""\<close>\<close>

definition aliasSuffix :: "string option \<Rightarrow> string" where
  "aliasSuffix a =
     (case a of None \<Rightarrow> [] | Some x \<Rightarrow> if x \<noteq> [] then '' '' @ escapeIdentifier x else [])"

definition selectList :: "SelectColumns \<Rightarrow> string" where
  "selectList sel =
     (case sel of
        SelectMany cols \<Rightarrow> join_with '', '' (map escapeIdentifier cols)
      | SelectOne col \<Rightarrow> escapeIdentifier col)"

definition spaces :: "nat \<Rightarrow> string" where
  "spaces n = replicate n CHR '' ''"

text \<open>
  The measure for the recursion of the rendering functions below: a value is rendered
  through conditions strictly inside it, and a subquery definition made by
  \<open>toSubquery\<close> holds only conditions of its builder.
\<close>

definition sd_size :: "SubqueryDefinition \<Rightarrow> nat" where
  "sd_size sd =
     (case sd_where sd of None \<Rightarrow> 0 | Some w \<Rightarrow> size w) +
     (case sd_join sd of None \<Rightarrow> 0 | Some j \<Rightarrow> size (jd_on j))"

lemma size_j_on: "size (j_on j) < size j"
  by (cases j) simp

lemma sd_size_toSubquery: "sd_size (toSubquery b) < size b"
proof (cases b)
  case (SubqueryBuilder f a s w js)
  show ?thesis
  proof (cases js)
    case Nil
    with SubqueryBuilder show ?thesis
      by (simp add: sd_size_def toSubquery_def split: option.splits)
  next
    case (Cons j js')
    with SubqueryBuilder size_j_on [of j] show ?thesis
      by (simp add: sd_size_def toSubquery_def toJoinDefinition_def split: option.splits)
  qed
qed

lemma size_list_member: "x \<in> set xs \<Longrightarrow> size x \<le> size_list size xs"
  by (induction xs) auto

lemma size_arg_member: "ArgCondition c \<in> set args \<Longrightarrow> size c < size_list size args"
  using size_list_member [of "ArgCondition c" args] by simp

lemma sd_size_where: "sd_where sd = Some w \<Longrightarrow> size w \<le> sd_size sd"
  by (simp add: sd_size_def)

lemma sd_size_join: "sd_join sd = Some j \<Longrightarrow> size (jd_on j) \<le> sd_size sd"
  by (simp add: sd_size_def)

lemma bindR_cong [fundef_cong]:
  "m = m' \<Longrightarrow> (\<And>x. m' = Inr x \<Longrightarrow> f x = f' x) \<Longrightarrow> bindR m f = bindR m' f'"
  by (auto simp: bindR_def split: sum.splits)

text \<open>
  \<open>escapeValue\<close> (sql.ts), the \<open>toSQL\<close> closures of the conditions (sql.ts
  \<open>createComparison\<close>, column.ts, context.ts) and \<open>subqueryToSQL\<close> (sql.ts) call one
  another. The tests of \<open>escapeValue\<close> are in the order of the source: \<open>null\<close>,
  boolean, number, \<open>Date\<close>, \<open>SQLExpression\<close>, array, string, object with \<open>toSQL\<close>,
  anything else.
\<close>

function escapeValue :: "SqlValue \<Rightarrow> error + string"
  and toSQL :: "Condition \<Rightarrow> error + string"
  and subqueryToSQL :: "SubqueryDefinition \<Rightarrow> error + string"
where
  "escapeValue VNull = Inr ''NULL''"
| "escapeValue (VBool b) = Inr (if b then ''TRUE'' else ''FALSE'')"
| "escapeValue (VNum n) = Inr (numberToString n)"
| "escapeValue (VDate d) =
     bindR (toISOString d) (\<lambda>t. Inr ([sq] @ t @ [sq] @ ''::TIMESTAMP''))"
| "escapeValue (VSql expression) = Inr expression"
| "escapeValue (VArr items) =
     bindR (collect (map escapeValue items))
       (\<lambda>escapedItems. Inr (''ARRAY['' @ join_with '', '' escapedItems @ '']''))"
| "escapeValue (VStr s) = Inr ([sq] @ replaceAll sq [sq, sq] s @ [sq])"
| "escapeValue (VCond c) = toSQL c"
| "escapeValue (VOther s) = Inr ([sq] @ s @ [sq])"
| "toSQL (Comparison column operator v) =
     bindR (escapeValue v)
       (\<lambda>val. Inr (escapeIdentifier column @ '' '' @ operatorMap operator @ '' '' @ val))"
| "toSQL (Pattern colName operator pattern) =
     bindR (escapeValue (VStr pattern))
       (\<lambda>val. Inr (escapeIdentifier colName @ '' '' @ patternKeyword operator @ '' '' @ val))"
| "toSQL (MembershipIn colName (InList vs)) =
     bindR (collect (map escapeValue vs))
       (\<lambda>escaped. Inr (escapeIdentifier colName @ '' IN ('' @ join_with '', '' escaped @ '')''))"
| "toSQL (MembershipIn colName (InSubquery builder)) =
     bindR (subqueryToSQL (toSubquery builder))
       (\<lambda>sub. Inr (escapeIdentifier colName @ '' IN '' @ sub))"
| "toSQL (MembershipContains colName v) =
     bindR (escapeValue v) (\<lambda>val. Inr (escapeIdentifier colName @ '' @> '' @ val))"
| "toSQL (Null colName IsNull) = Inr (escapeIdentifier colName @ '' IS NULL'')"
| "toSQL (Null colName IsNotNull) = Inr (escapeIdentifier colName @ '' IS NOT NULL'')"
| "toSQL (Logical operator flattened) =
     bindR (collect (map toSQL flattened))
       (\<lambda>parts. Inr (''('' @ join_with ('' '' @ logicalKeyword operator @ '' '') parts @ '')''))"
| "toSQL (Helper (IsMemberOf joinTable foreignKey localKey)) =
     Inr (escapeIdentifier localKey @ '' IN ('' @ [nl] @
          spaces 10 @ ''SELECT '' @ escapeIdentifier foreignKey @ [nl] @
          spaces 10 @ ''FROM '' @ escapeIdentifier joinTable @ [nl] @
          spaces 10 @ ''WHERE '' @ escapeIdentifier ''user_id'' @ '' = '' @
            contextToSQL AuthUid @ [nl] @
          spaces 8 @ '')'')"
| "toSQL (Helper (HasRole role userRolesTable)) =
     bindR (escapeValue (VStr role))
       (\<lambda>val. Inr (''EXISTS ('' @ [nl] @
          spaces 8 @ ''SELECT 1'' @ [nl] @
          spaces 8 @ ''FROM '' @ escapeIdentifier userRolesTable @ [nl] @
          spaces 8 @ ''WHERE '' @ escapeIdentifier ''user_id'' @ '' = '' @
            contextToSQL AuthUid @ [nl] @
          spaces 8 @ ''AND '' @ escapeIdentifier ''role'' @ '' = '' @ val @ [nl] @
          spaces 6 @ '')''))"
| "toSQL (Helper AlwaysTrue) = Inr ''true''"
| "toSQL (Function functionName args) =
     bindR (collect (map (\<lambda>arg. case arg of
                                   ArgString s \<Rightarrow> Inr (escapeIdentifier s)
                                 | ArgCondition c \<Rightarrow> toSQL c) args))
       (\<lambda>argsList. Inr (escapeIdentifier functionName @ ''('' @ join_with '', '' argsList @ '')''))"
| "toSQL (Context ctx) = Inr (contextToSQL ctx)"
| "subqueryToSQL subquery =
     (let from = escapeIdentifier (sd_from subquery);
          alias = aliasSuffix (sd_alias subquery);
          select = selectList (sd_select subquery);
          sql0 = ''SELECT '' @ select @ '' FROM '' @ from @ alias
      in bindR (case sd_join subquery of
                  None \<Rightarrow> Inr sql0
                | Some j \<Rightarrow>
                    bindR (toSQL (jd_on j))
                      (\<lambda>on. Inr (sql0 @ '' '' @ joinTypeUpper (jd_type j) @ '' JOIN '' @
                                  escapeIdentifier (jd_table j) @ aliasSuffix (jd_alias j) @
                                  '' ON '' @ on)))
           (\<lambda>sql1. bindR (case sd_where subquery of
                             None \<Rightarrow> Inr sql1
                           | Some w \<Rightarrow> bindR (toSQL w) (\<lambda>cond. Inr (sql1 @ '' WHERE '' @ cond)))
                      (\<lambda>sql2. Inr (''('' @ sql2 @ '')''))))"
  by pat_completeness auto

termination escapeValue
proof (relation "measure (\<lambda>x. case x of
           Inl v \<Rightarrow> 2 * size v
         | Inr (Inl c) \<Rightarrow> 2 * size c + 1
         | Inr (Inr sd) \<Rightarrow> 2 * sd_size sd + 2)", goal_cases)
  case 1
  show ?case by simp
next
  case (2 items x)
  then show ?case using size_list_member [of x items] by simp
next
  case (3 c)
  show ?case by simp
next
  case (4 column operator v)
  show ?case by simp
next
  case (5 colName operator pattern)
  show ?case by simp
next
  case (6 colName vs x)
  then show ?case using size_list_member [of x vs] by simp
next
  case (7 colName builder)
  show ?case using sd_size_toSubquery [of builder] by simp
next
  case (8 colName v)
  show ?case by simp
next
  case (9 operator flattened x)
  then show ?case using size_list_member [of x flattened] by simp
next
  case (10 role userRolesTable)
  show ?case by simp
next
  case (11 functionName args x c)
  then show ?case using size_arg_member [of c args] by simp
next
  case (12 subquery x xa xb xc j)
  then show ?case using sd_size_join [of subquery j] by simp
next
  case (13 subquery x xa xb xc xd w)
  then show ?case using sd_size_where [of subquery w] by simp
qed

declare subqueryToSQL.simps [simp del]

section \<open>column.ts: ConditionChain and ColumnBuilder\<close>

text \<open>
  A \<open>ConditionChain\<close> wraps one condition and \<open>toCondition\<close> unwraps it, so a chain
  is its condition. \<open>cond_and\<close> and \<open>cond_or\<close> are the methods \<open>and\<close> and \<open>or\<close>.
  \<^verbatim>\<open>
  const leftConditions =
    left.type === "logical" && (left as LogicalCondition).operator === operator
      ? (left as LogicalCondition).conditions : [left];
  const rightConditions = ... // the same for right
  return [...leftConditions, ...rightConditions];
  \<close>
\<close>

definition flattenConditions ::
  "Condition \<Rightarrow> Condition \<Rightarrow> LogicalOperator \<Rightarrow> Condition list" where
  "flattenConditions left right operator =
     (let leftConditions =
            (case left of
               Logical op conditions \<Rightarrow> if op = operator then conditions else [left]
             | _ \<Rightarrow> [left]);
          rightConditions =
            (case right of
               Logical op conditions \<Rightarrow> if op = operator then conditions else [right]
             | _ \<Rightarrow> [right])
      in leftConditions @ rightConditions)"

definition chainWith :: "Condition \<Rightarrow> Condition \<Rightarrow> LogicalOperator \<Rightarrow> Condition" where
  "chainWith this other operator = Logical operator (flattenConditions this other operator)"

definition cond_and :: "Condition \<Rightarrow> Condition \<Rightarrow> Condition" where
  "cond_and this other = chainWith this other AND"

definition cond_or :: "Condition \<Rightarrow> Condition \<Rightarrow> Condition" where
  "cond_or this other = chainWith this other OR"

text \<open>
  The methods of \<open>column(columnName)\<close>; the column builder is its column name.
\<close>

definition createComparison :: "string \<Rightarrow> ComparisonOperator \<Rightarrow> SqlValue \<Rightarrow> Condition" where
  "createComparison column operator v = Comparison column operator v"

definition col_eq :: "string \<Rightarrow> SqlValue \<Rightarrow> Condition" where
  "col_eq columnName v = createComparison columnName OpEq v"

definition col_neq :: "string \<Rightarrow> SqlValue \<Rightarrow> Condition" where
  "col_neq columnName v = createComparison columnName OpNeq v"

definition col_gt :: "string \<Rightarrow> SqlValue \<Rightarrow> Condition" where
  "col_gt columnName v = createComparison columnName OpGt v"

definition col_gte :: "string \<Rightarrow> SqlValue \<Rightarrow> Condition" where
  "col_gte columnName v = createComparison columnName OpGte v"

definition col_lt :: "string \<Rightarrow> SqlValue \<Rightarrow> Condition" where
  "col_lt columnName v = createComparison columnName OpLt v"

definition col_lte :: "string \<Rightarrow> SqlValue \<Rightarrow> Condition" where
  "col_lte columnName v = createComparison columnName OpLte v"

definition col_like :: "string \<Rightarrow> string \<Rightarrow> Condition" where
  "col_like columnName pattern = Pattern columnName OpLike pattern"

definition col_ilike :: "string \<Rightarrow> string \<Rightarrow> Condition" where
  "col_ilike columnName pattern = Pattern columnName OpILike pattern"

definition col_in :: "string \<Rightarrow> InValues \<Rightarrow> Condition" where
  "col_in columnName vs = MembershipIn columnName vs"

definition col_contains :: "string \<Rightarrow> SqlValue \<Rightarrow> Condition" where
  "col_contains columnName v = MembershipContains columnName v"

definition col_isNull :: "string \<Rightarrow> Condition" where
  "col_isNull columnName = Null columnName IsNull"

definition col_isNotNull :: "string \<Rightarrow> Condition" where
  "col_isNotNull columnName = Null columnName IsNotNull"

definition auth_uid :: Condition where
  "auth_uid = Context AuthUid"

definition session_get :: "string \<Rightarrow> SessionVariableType \<Rightarrow> Condition" where
  "session_get key t = Context (Session key t)"

definition currentUser :: Condition where
  "currentUser = Context CurrentUser"

definition col_isOwner :: "string \<Rightarrow> Condition" where
  "col_isOwner columnName = col_eq columnName (VCond auth_uid)"

definition col_isPublic :: "string \<Rightarrow> Condition" where
  "col_isPublic columnName = col_eq columnName (VBool True)"

definition col_belongsToTenant :: "string \<Rightarrow> string \<Rightarrow> Condition" where
  "col_belongsToTenant columnName sessionKey =
     col_eq columnName (VCond (session_get sessionKey TyInteger))"

definition col_isMemberOf :: "string \<Rightarrow> string \<Rightarrow> string \<Rightarrow> Condition" where
  "col_isMemberOf joinTable foreignKey localKey = Helper (IsMemberOf joinTable foreignKey localKey)"

definition hasRole :: "string \<Rightarrow> string \<Rightarrow> Condition" where
  "hasRole role userRolesTable = Helper (HasRole role userRolesTable)"

definition alwaysTrue :: Condition where
  "alwaysTrue = Helper AlwaysTrue"

definition call :: "string \<Rightarrow> FunctionArg list \<Rightarrow> Condition" where
  "call functionName args = Function functionName args"

section \<open>validation.ts: table references\<close>

text \<open>
  \<open>s.indexOf(c, start)\<close> as an option (\<open>None\<close> for \<open>-1\<close>), \<open>s[i]\<close> as an option
  (\<open>None\<close> for \<open>undefined\<close>) and \<open>s.substring(a, b)\<close> for \<open>a \<le> b\<close>.
\<close>

fun indexOfAux :: "char \<Rightarrow> string \<Rightarrow> nat \<Rightarrow> nat option" where
  "indexOfAux c [] i = None"
| "indexOfAux c (x # xs) i = (if x = c then Some i else indexOfAux c xs (Suc i))"

definition indexOf :: "string \<Rightarrow> char \<Rightarrow> nat \<Rightarrow> nat option" where
  "indexOf s c start = indexOfAux c (drop start s) start"

definition charAt :: "string \<Rightarrow> nat \<Rightarrow> char option" where
  "charAt s i = (if i < length s then Some (s ! i) else None)"

definition substring :: "string \<Rightarrow> nat \<Rightarrow> nat \<Rightarrow> string" where
  "substring s a b = take (b - a) (drop a s)"

text \<open>
  \<^verbatim>\<open>
  if (columnRef.startsWith('"')) {
    const endQuote = columnRef.indexOf('"', 1);
    if (endQuote > 0 && columnRef[endQuote + 1] === '.') {
      return columnRef.substring(1, endQuote);
    }
  }
  const dotIndex = columnRef.indexOf('.');
  if (dotIndex > 0) {
    return columnRef.substring(0, dotIndex);
  }
  return null;
  \<close>
\<close>

definition quotedTable :: "string \<Rightarrow> string option" where
  "quotedTable columnRef =
     (if charAt columnRef 0 = Some dq then
        (case indexOf columnRef dq 1 of
           None \<Rightarrow> None
         | Some endQuote \<Rightarrow>
             if endQuote > 0 \<and> charAt columnRef (endQuote + 1) = Some CHR ''.''
             then Some (substring columnRef 1 endQuote)
             else None)
      else None)"

definition extractTableFromColumn :: "string \<Rightarrow> string option" where
  "extractTableFromColumn columnRef =
     (case quotedTable columnRef of
        Some t \<Rightarrow> Some t
      | None \<Rightarrow>
          (case indexOf columnRef CHR ''.'' 0 of
             None \<Rightarrow> None
           | Some dotIndex \<Rightarrow>
               if dotIndex > 0 then Some (substring columnRef 0 dotIndex) else None))"

text \<open>
  A \<open>Set<string>\<close> iterates in insertion order: it is a list without duplicates, and
  \<open>add\<close> appends a new member at the end.
\<close>

definition setAdd :: "string \<Rightarrow> string list \<Rightarrow> string list" where
  "setAdd x xs = (if x \<in> set xs then xs else xs @ [x])"

text \<open>
  \<open>const table = extractTableFromColumn(ref); if (table) { tables.add(table); }\<close>:
  neither \<open>null\<close> nor the empty string is added.
\<close>

definition addTableOf :: "string \<Rightarrow> string list \<Rightarrow> string list" where
  "addTableOf ref tables =
     (case extractTableFromColumn ref of
        None \<Rightarrow> tables
      | Some table \<Rightarrow> if table \<noteq> [] then setAdd table tables else tables)"

text \<open>\<open>Object.values(helper.params)\<close>, in the order the builder wrote the keys.\<close>

definition helperParams :: "HelperCondition \<Rightarrow> string list" where
  "helperParams h =
     (case h of
        IsMemberOf joinTable foreignKey localKey \<Rightarrow> [joinTable, foreignKey, localKey]
      | HasRole role userRolesTable \<Rightarrow> [role, userRolesTable]
      | AlwaysTrue \<Rightarrow> [])"

text \<open>
  \<open>traverse\<close> is the inner function of \<open>extractTableReferences\<close>; the set \<open>tables\<close>
  it fills is passed through. The value of a comparison is traversed when it is an
  object with \<open>toSQL\<close>: a condition, or an \<open>SQLExpression\<close>, which has no \<open>type\<close> and
  falls through the \<open>switch\<close>, as a context leaf does.
\<close>

fun traverse :: "Condition \<Rightarrow> string list \<Rightarrow> string list" where
  "traverse (Comparison column operator v) tables =
     (let tables1 = addTableOf column tables
      in case v of VCond c \<Rightarrow> traverse c tables1 | _ \<Rightarrow> tables1)"
| "traverse (Pattern column operator pattern) tables = addTableOf column tables"
| "traverse (Null column v) tables = addTableOf column tables"
| "traverse (Logical operator conditions) tables = fold traverse conditions tables"
| "traverse (MembershipIn column vs) tables =
     (if column \<noteq> [] then addTableOf column tables else tables)"
| "traverse (MembershipContains column v) tables =
     (if column \<noteq> [] then addTableOf column tables else tables)"
| "traverse (Helper h) tables = fold addTableOf (helperParams h) tables"
| "traverse (Function functionName args) tables =
     fold (\<lambda>arg tbls. case arg of
                         ArgString s \<Rightarrow> addTableOf s tbls
                       | ArgCondition c \<Rightarrow> traverse c tbls) args tables"
| "traverse (Context ctx) tables = tables"

definition extractTableReferences :: "Condition \<Rightarrow> string list" where
  "extractTableReferences condition = traverse condition []"

definition getAvailableTables :: "string \<Rightarrow> string option \<Rightarrow> JoinEntry list \<Rightarrow> string list" where
  "getAvailableTables fromTable fromAlias joins =
     fold (\<lambda>j tables. setAdd (orElse (j_alias j) (j_table j)) tables) joins
       (setAdd (orElse fromAlias fromTable) [])"

definition detectMissingJoins :: "Condition option \<Rightarrow> string list \<Rightarrow> string list" where
  "detectMissingJoins condition availableTables =
     (case condition of
        None \<Rightarrow> []
      | Some c \<Rightarrow> filter (\<lambda>table. table \<notin> set availableTables) (extractTableReferences c))"

section \<open>subquery-builder.ts: the builder\<close>

definition missingJoinMessage :: "string list \<Rightarrow> string" where
  "missingJoinMessage filteredMissing =
     ''Missing join(s) for table(s): '' @ join_with '', '' filteredMissing @ ''. '' @
     ''Add a join using .join('' @ [sq] @ filteredMissing ! 0 @ [sq] @
     '', ...) before calling .where()''"

definition unavailableMessage :: "string list \<Rightarrow> string" where
  "unavailableMessage filteredMissing =
     ''Join condition references unavailable table(s): '' @ join_with '', '' filteredMissing"

definition validateTableReferences ::
  "Condition \<Rightarrow> string \<Rightarrow> string option \<Rightarrow> JoinEntry list \<Rightarrow> string option \<Rightarrow> error + unit" where
  "validateTableReferences condition from fromAlias joins allowedMissing =
     (let availableTables = getAvailableTables from fromAlias joins;
          missing = detectMissingJoins (Some condition) availableTables
      in if length missing > 0 then
           (let filteredMissing =
                  (if truthy allowedMissing
                   then filter (\<lambda>t. Some t \<noteq> allowedMissing) missing
                   else missing)
            in if length filteredMissing > 0 then
                 (if truthy allowedMissing
                  then Inl (Error (unavailableMessage filteredMissing))
                  else Inl (Error (missingJoinMessage filteredMissing)))
               else Inr ())
         else Inr ())"

text \<open>
  The builder's methods mutate \<open>this\<close> and return it; here they return the new
  builder, or the error thrown, in which case the builder is as it was.
\<close>

definition sb_from :: "string \<Rightarrow> string option \<Rightarrow> SubqueryBuilder" where
  "sb_from table alias = SubqueryBuilder table alias (SelectOne ''*'') None []"

definition sb_select :: "SubqueryBuilder \<Rightarrow> SelectColumns \<Rightarrow> SubqueryBuilder" where
  "sb_select this columns =
     SubqueryBuilder (b_from this) (b_fromAlias this) columns (b_where this) (b_joins this)"

definition sb_where :: "SubqueryBuilder \<Rightarrow> Condition \<Rightarrow> error + SubqueryBuilder" where
  "sb_where this condition =
     bindR (validateTableReferences condition (b_from this) (b_fromAlias this) (b_joins this) None)
       (\<lambda>_. Inr (SubqueryBuilder (b_from this) (b_fromAlias this) (b_select this)
                   (Some condition) (b_joins this)))"

definition sb_join ::
  "SubqueryBuilder \<Rightarrow> string \<Rightarrow> Condition \<Rightarrow> JoinType option \<Rightarrow> string option
     \<Rightarrow> error + SubqueryBuilder" where
  "sb_join this table on type alias =
     bindR (validateTableReferences on (b_from this) (b_fromAlias this) (b_joins this)
              (Some (orElse alias table)))
       (\<lambda>_. Inr (SubqueryBuilder (b_from this) (b_fromAlias this) (b_select this) (b_where this)
                   (b_joins this @
                    [JoinEntry table alias on
                       (Some (case type of None \<Rightarrow> JInner | Some t \<Rightarrow> t))])))"

section \<open>column.ts: shortcuts that use the subquery builder and dates\<close>

text \<open>
  \<^verbatim>\<open>
  userBelongsTo(membershipTable: string, membershipColumn?: string): ConditionChain {
    const colName = this.columnName;
    const selectColumn = membershipColumn || colName;
    return this.in(
      from(membershipTable).select(selectColumn).where(column("user_id").eq(auth.uid()))
    );
  }
  \<close>
\<close>

definition col_userBelongsTo :: "string \<Rightarrow> string \<Rightarrow> string option \<Rightarrow> error + Condition" where
  "col_userBelongsTo columnName membershipTable membershipColumn =
     (let selectColumn = orElse membershipColumn columnName
      in bindR (sb_where (sb_select (sb_from membershipTable None) (SelectOne selectColumn))
                  (col_eq ''user_id'' (VCond auth_uid)))
           (\<lambda>builder. Inr (col_in columnName (InSubquery builder))))"

text \<open>
  \<open>releasedBefore(referenceDate?)\<close> compares with \<open>referenceDate || new Date()\<close>;
  the current date is the parameter \<open>now\<close>.
\<close>

definition col_releasedBefore :: "string \<Rightarrow> jsdate option \<Rightarrow> jsdate \<Rightarrow> Condition" where
  "col_releasedBefore columnName referenceDate now =
     col_lte columnName (VDate (case referenceDate of None \<Rightarrow> now | Some d \<Rightarrow> d))"

section \<open>The policy builder\<close>

text \<open>
  Modelled from the spec: the policy builder (\<open>policy-builder.ts\<close>, imported by the
  policy grouping code) is not among the source files. The operations a policy is
  declared for, as the specification lists them: SELECT, INSERT, UPDATE, DELETE, ALL.
\<close>

datatype Operation = ForSelect | ForInsert | ForUpdate | ForDelete | ForAll

text \<open>
  Modelled from the spec: the \<open>PolicyDefinition\<close> of the missing policy builder, with
  the fields of the specification's data model: name, target table, operation,
  optional role, optional USING condition, optional WITH CHECK condition, restrictive
  flag (permissive by default), optional description.
\<close>

record PolicyDefinition =
  p_name :: string
  p_table :: string
  p_operation :: Operation
  p_role :: "string option"
  p_using :: "Condition option"
  p_withCheck :: "Condition option"
  p_restrictive :: bool
  p_description :: "string option"

text \<open>
  Modelled from the spec: the first states of the missing policy builder's state
  machine, \<open>named\<close> and \<open>on(table)\<close>, which the specification requires in this order
  before \<open>for(operation)\<close>.
\<close>

datatype NamedPolicy = NamedPolicy string

datatype OnPolicy = OnPolicy string string

text \<open>Modelled from the spec: the entry point of the missing policy builder.\<close>

definition createPolicy :: "string \<Rightarrow> NamedPolicy" where
  "createPolicy name = NamedPolicy name"

text \<open>Modelled from the spec: the step \<open>on(table)\<close> of the missing policy builder.\<close>

definition policy_on :: "NamedPolicy \<Rightarrow> string \<Rightarrow> OnPolicy" where
  "policy_on p table = (case p of NamedPolicy name \<Rightarrow> OnPolicy name table)"

text \<open>
  Modelled from the spec: the step \<open>for(operation)\<close> of the missing policy builder;
  no role, no predicate and no description yet, permissive.
\<close>

definition policy_for :: "OnPolicy \<Rightarrow> Operation \<Rightarrow> PolicyDefinition" where
  "policy_for p operation =
     (case p of OnPolicy name table \<Rightarrow>
        \<lparr>p_name = name, p_table = table, p_operation = operation, p_role = None,
         p_using = None, p_withCheck = None, p_restrictive = False, p_description = None\<rparr>)"

text \<open>Modelled from the spec: the step \<open>to(role)\<close> of the missing policy builder.\<close>

definition policy_to :: "PolicyDefinition \<Rightarrow> string \<Rightarrow> PolicyDefinition" where
  "policy_to p role = p\<lparr>p_role := Some role\<rparr>"

text \<open>
  Modelled from the spec: the step \<open>when(cond)\<close> of the missing policy builder, which
  sets USING.
\<close>

definition policy_when :: "PolicyDefinition \<Rightarrow> Condition \<Rightarrow> PolicyDefinition" where
  "policy_when p cond = p\<lparr>p_using := Some cond\<rparr>"

text \<open>
  Modelled from the spec: the step \<open>withCheck(cond)\<close> of the missing policy builder,
  which sets WITH CHECK.
\<close>

definition policy_withCheck :: "PolicyDefinition \<Rightarrow> Condition \<Rightarrow> PolicyDefinition" where
  "policy_withCheck p cond = p\<lparr>p_withCheck := Some cond\<rparr>"

text \<open>
  Modelled from the spec: the step \<open>allow(cond)\<close> of the missing policy builder:
  ``INSERT \<open>\<rightarrow>\<close> WITH CHECK only; SELECT or DELETE \<open>\<rightarrow>\<close> USING only; UPDATE \<open>\<rightarrow>\<close> both
  USING and WITH CHECK set to the same condition; ALL \<open>\<rightarrow>\<close> both''.
\<close>

definition policy_allow :: "PolicyDefinition \<Rightarrow> Condition \<Rightarrow> PolicyDefinition" where
  "policy_allow p cond =
     (case p_operation p of
        ForInsert \<Rightarrow> policy_withCheck p cond
      | ForSelect \<Rightarrow> policy_when p cond
      | ForDelete \<Rightarrow> policy_when p cond
      | ForUpdate \<Rightarrow> policy_withCheck (policy_when p cond) cond
      | ForAll \<Rightarrow> policy_withCheck (policy_when p cond) cond)"

text \<open>Modelled from the spec: the step \<open>restrictive()\<close> of the missing policy builder.\<close>

definition policy_restrictive :: "PolicyDefinition \<Rightarrow> PolicyDefinition" where
  "policy_restrictive p = p\<lparr>p_restrictive := True\<rparr>"

text \<open>Modelled from the spec: the step \<open>description(text)\<close> of the missing policy builder.\<close>

definition policy_description :: "PolicyDefinition \<Rightarrow> string \<Rightarrow> PolicyDefinition" where
  "policy_description p d = p\<lparr>p_description := Some d\<rparr>"

text \<open>Modelled from the spec: the operation keyword in the statement the missing policy builder renders.\<close>

definition operationKeyword :: "Operation \<Rightarrow> string" where
  "operationKeyword operation =
     (case operation of
        ForSelect \<Rightarrow> ''SELECT''
      | ForInsert \<Rightarrow> ''INSERT''
      | ForUpdate \<Rightarrow> ''UPDATE''
      | ForDelete \<Rightarrow> ''DELETE''
      | ForAll \<Rightarrow> ''ALL'')"

text \<open>
  Modelled from the spec: the part of the statement before the predicates, as the
  missing policy builder renders it:
  \<^verbatim>\<open>CREATE POLICY "<name>" ON "<table>"[ AS RESTRICTIVE] FOR <OPERATION>[ TO <role>]\<close>.
\<close>

definition policyHeader :: "PolicyDefinition \<Rightarrow> string" where
  "policyHeader p =
     ''CREATE POLICY '' @ [dq] @ p_name p @ [dq] @ '' ON '' @ [dq] @ p_table p @ [dq] @
     (if p_restrictive p then '' AS RESTRICTIVE'' else []) @
     '' FOR '' @ operationKeyword (p_operation p) @
     (case p_role p of None \<Rightarrow> [] | Some role \<Rightarrow> '' TO '' @ role)"

text \<open>
  Modelled from the spec: one optional predicate clause of the missing policy
  builder's statement, \<open>[ USING (<using>)]\<close> or \<open>[ WITH CHECK (<check>)]\<close>, omitted
  when the predicate was never set. Rendering the condition can raise what
  \<open>toSQL\<close> raises.
\<close>

definition predicateClause :: "string \<Rightarrow> Condition option \<Rightarrow> error + string" where
  "predicateClause keyword cond =
     (case cond of
        None \<Rightarrow> Inr []
      | Some c \<Rightarrow> bindR (toSQL c) (\<lambda>s. Inr ('' '' @ keyword @ '' ('' @ s @ '')'')))"

text \<open>
  Modelled from the spec: \<open>toSQL()\<close> of the missing policy builder, without options
  (the index statements of \<open>includeIndexes\<close> are not modelled). It ``fails
  (construction/render-time error, not a silently-always-true policy) if neither
  USING nor WITH CHECK was ever set'', and otherwise renders the header followed by
  the clauses that were set.
\<close>

definition policy_toSQL :: "PolicyDefinition \<Rightarrow> error + string" where
  "policy_toSQL p =
     (if p_using p = None \<and> p_withCheck p = None then Inl StructuralError
      else bindR (predicateClause ''USING'' (p_using p))
             (\<lambda>usingClause. bindR (predicateClause ''WITH CHECK'' (p_withCheck p))
                (\<lambda>checkClause. Inr (policyHeader p @ usingClause @ checkClause))))"

text \<open>
  Modelled from the spec: the optional steps of the missing policy builder after
  \<open>for(operation)\<close>, as data, so that a sequence of builder calls is a list.
\<close>

datatype PolicyStep =
    StepTo string
  | StepWhen Condition
  | StepWithCheck Condition
  | StepAllow Condition
  | StepRestrictive
  | StepDescription string

text \<open>Modelled from the spec: one call on the missing policy builder.\<close>

definition applyStep :: "PolicyDefinition \<Rightarrow> PolicyStep \<Rightarrow> PolicyDefinition" where
  "applyStep p step =
     (case step of
        StepTo role \<Rightarrow> policy_to p role
      | StepWhen cond \<Rightarrow> policy_when p cond
      | StepWithCheck cond \<Rightarrow> policy_withCheck p cond
      | StepAllow cond \<Rightarrow> policy_allow p cond
      | StepRestrictive \<Rightarrow> policy_restrictive p
      | StepDescription d \<Rightarrow> policy_description p d)"

text \<open>
  Modelled from the spec: whether a call on the missing policy builder is one of
  \<open>when\<close>, \<open>allow\<close>, \<open>withCheck\<close>, the calls that set a predicate.
\<close>

definition setsPredicate :: "PolicyStep \<Rightarrow> bool" where
  "setsPredicate step =
     (case step of
        StepWhen cond \<Rightarrow> True
      | StepWithCheck cond \<Rightarrow> True
      | StepAllow cond \<Rightarrow> True
      | _ \<Rightarrow> False)"

section \<open>Policy grouping\<close>

text \<open>
  \<^verbatim>\<open>
  export function policyGroupToSQL(group: PolicyGroup, options?: SQLGenerationOptions): string {
    const policySQLs = group.policies.map((p) => p.toSQL(options));
    if (group.description) {
      return `-- ${group.description}\n${policySQLs.join(";\n\n")};`;
    }
    return policySQLs.join(";\n\n") + ";";
  }
  \<close>
  The policies are rendered by the modelled \<open>policy_toSQL\<close>, without options.
\<close>

record PolicyGroup =
  g_name :: string
  g_policies :: "PolicyDefinition list"
  g_description :: "string option"

definition createPolicyGroup ::
  "string \<Rightarrow> PolicyDefinition list \<Rightarrow> string option \<Rightarrow> PolicyGroup" where
  "createPolicyGroup name policies description =
     \<lparr>g_name = name, g_policies = policies, g_description = description\<rparr>"

definition policyGroupToSQL :: "PolicyGroup \<Rightarrow> error + string" where
  "policyGroupToSQL grp =
     bindR (collect (map policy_toSQL (g_policies grp)))
       (\<lambda>policySQLs.
          if truthy (g_description grp)
          then Inr (''-- '' @ orElse (g_description grp) [] @ [nl] @
                    join_with ('';'' @ [nl, nl]) policySQLs @ '';'')
          else Inr (join_with ('';'' @ [nl, nl]) policySQLs @ '';''))"

section \<open>Predicates of the claims\<close>

text \<open>
  A safe name matches \<open>[A-Za-z0-9_]+\<close>. A quoted token over the quote character
  \<open>q\<close> starts and ends with \<open>q\<close> and every \<open>q\<close> in between is one of a pair.
  A well-formed identifier token is a safe name or a token quoted with double quotes.
\<close>

definition isSafeName :: "string \<Rightarrow> bool" where
  "isSafeName s \<longleftrightarrow> s \<noteq> [] \<and> list_all isSafeChar s"

fun quotesDoubled :: "char \<Rightarrow> string \<Rightarrow> bool" where
  "quotesDoubled q [] = True"
| "quotesDoubled q (c # cs) =
     (if c = q
      then (case cs of [] \<Rightarrow> False | d # ds \<Rightarrow> d = q \<and> quotesDoubled q ds)
      else quotesDoubled q cs)"

definition isQuoted :: "char \<Rightarrow> string \<Rightarrow> bool" where
  "isQuoted q s \<longleftrightarrow>
     (case s of
        [] \<Rightarrow> False
      | c # rest \<Rightarrow> c = q \<and> rest \<noteq> [] \<and> last rest = q \<and> quotesDoubled q (butlast rest))"

definition wellFormedIdentifier :: "string \<Rightarrow> bool" where
  "wellFormedIdentifier s \<longleftrightarrow> isSafeName s \<or> isQuoted dq s"

text \<open>
  What the session-variable leaf would render if the key went through the escaping
  layer: the key as the single-quoted literal \<open>escapeValue\<close> makes of a string.
\<close>

definition escapedSessionSQL :: "string \<Rightarrow> SessionVariableType \<Rightarrow> error + string" where
  "escapedSessionSQL key t =
     bindR (escapeValue (VStr key))
       (\<lambda>literal. Inr (''current_setting('' @ literal @ '', true)'' @ typeCast t))"

text \<open>
  A condition is a logical node with the given operator; the operands a condition
  contributes to a chain with that operator are its children if it is such a node,
  and itself otherwise.
\<close>

definition isLogical :: "LogicalOperator \<Rightarrow> Condition \<Rightarrow> bool" where
  "isLogical operator c = (case c of Logical op conditions \<Rightarrow> op = operator | _ \<Rightarrow> False)"

definition operands :: "LogicalOperator \<Rightarrow> Condition \<Rightarrow> Condition list" where
  "operands operator c =
     (case c of
        Logical op conditions \<Rightarrow> if op = operator then conditions else [c]
      | _ \<Rightarrow> [c])"

text \<open>
  The tables a condition references, as the specification describes the validator's
  walk: the qualifier of every comparison, pattern, null-check and membership column,
  those of a condition used as a comparison value, of all children of a logical
  node, and of the string parameters of helper and function nodes. An empty
  qualifier is none.
\<close>

definition tableOf :: "string \<Rightarrow> string set" where
  "tableOf ref =
     (case extractTableFromColumn ref of
        None \<Rightarrow> {}
      | Some table \<Rightarrow> if table \<noteq> [] then {table} else {})"

fun referencedTables :: "Condition \<Rightarrow> string set" where
  "referencedTables (Comparison column operator v) =
     tableOf column \<union> (case v of VCond c \<Rightarrow> referencedTables c | _ \<Rightarrow> {})"
| "referencedTables (Pattern column operator pattern) = tableOf column"
| "referencedTables (Null column v) = tableOf column"
| "referencedTables (MembershipIn column vs) = tableOf column"
| "referencedTables (MembershipContains column v) = tableOf column"
| "referencedTables (Logical operator conditions) = \<Union> (set (map referencedTables conditions))"
| "referencedTables (Helper h) = \<Union> (set (map tableOf (helperParams h)))"
| "referencedTables (Function functionName args) =
     \<Union> (set (map (\<lambda>arg. case arg of
                              ArgString s \<Rightarrow> tableOf s
                            | ArgCondition c \<Rightarrow> referencedTables c) args))"
| "referencedTables (Context ctx) = {}"

text \<open>
  A value, a condition or a builder holds no invalid date; for a subquery definition,
  its where-condition and the ON-condition of its join hold none.
\<close>

fun datesValid :: "SqlValue \<Rightarrow> bool"
  and datesValidCond :: "Condition \<Rightarrow> bool"
  and datesValidArg :: "FunctionArg \<Rightarrow> bool"
  and datesValidIn :: "InValues \<Rightarrow> bool"
  and datesValidBuilder :: "SubqueryBuilder \<Rightarrow> bool"
  and datesValidJoin :: "JoinEntry \<Rightarrow> bool"
where
  "datesValid VNull = True"
| "datesValid (VBool b) = True"
| "datesValid (VNum n) = True"
| "datesValid (VDate d) = (d \<noteq> InvalidDate)"
| "datesValid (VSql e) = True"
| "datesValid (VArr items) = list_all datesValid items"
| "datesValid (VStr s) = True"
| "datesValid (VCond c) = datesValidCond c"
| "datesValid (VOther s) = True"
| "datesValidCond (Comparison column operator v) = datesValid v"
| "datesValidCond (Pattern column operator pattern) = True"
| "datesValidCond (MembershipIn column vs) = datesValidIn vs"
| "datesValidCond (MembershipContains column v) = datesValid v"
| "datesValidCond (Null column n) = True"
| "datesValidCond (Logical operator conditions) = list_all datesValidCond conditions"
| "datesValidCond (Helper h) = True"
| "datesValidCond (Function functionName args) = list_all datesValidArg args"
| "datesValidCond (Context ctx) = True"
| "datesValidArg (ArgString s) = True"
| "datesValidArg (ArgCondition c) = datesValidCond c"
| "datesValidIn (InList vs) = list_all datesValid vs"
| "datesValidIn (InSubquery b) = datesValidBuilder b"
| "datesValidBuilder (SubqueryBuilder f a s w js) =
     ((case w of None \<Rightarrow> True | Some c \<Rightarrow> datesValidCond c) \<and> list_all datesValidJoin js)"
| "datesValidJoin (JoinEntry t a on ty) = datesValidCond on"

definition datesValidDef :: "SubqueryDefinition \<Rightarrow> bool" where
  "datesValidDef sd \<longleftrightarrow>
     (case sd_where sd of None \<Rightarrow> True | Some c \<Rightarrow> datesValidCond c) \<and>
     (case sd_join sd of None \<Rightarrow> True | Some j \<Rightarrow> datesValidCond (jd_on j))"

section \<open>Identifier escaping (C8)\<close>

lemma quotesDoubled_replaceAll: "quotesDoubled q (replaceAll q [q, q] s)"
  by (induction s) (auto simp: replaceAll_def)

lemma isQuoted_wrap: "quotesDoubled q body \<Longrightarrow> isQuoted q ([q] @ body @ [q])"
  by (simp add: isQuoted_def)

lemma escapeIdentifier_safe: "list_all isSafeChar n \<Longrightarrow> escapeIdentifier n = n"
  by (simp add: escapeIdentifier_def list_ex_iff list_all_iff)

lemma escapeIdentifier_unsafe:
  "\<not> list_all isSafeChar s \<Longrightarrow> escapeIdentifier s = [dq] @ replaceAll dq [dq, dq] s @ [dq]"
  by (simp add: escapeIdentifier_def list_ex_iff list_all_iff)

text \<open>
  C8, as stated, fails at the empty string: it has no character outside the class,
  so \<open>escapeIdentifier\<close> returns it unchanged, and the empty text is neither a
  non-empty safe name nor a double-quoted segment.
\<close>

theorem escapeIdentifier_empty_not_wellFormed:
  "\<not> wellFormedIdentifier (escapeIdentifier [])"
  by (simp add: escapeIdentifier_def wellFormedIdentifier_def isSafeName_def isQuoted_def)

text \<open>
  C8, amended: \<open>escapeIdentifier\<close> is idempotent on names matching
  \<open>[A-Za-z0-9_]+\<close> and returns them unchanged; for every non-empty input string
  its result is a well-formed identifier token (a non-empty safe name, or a
  double-quoted segment with embedded double quotes doubled); the empty string is
  returned as the empty string.
\<close>

theorem escapeIdentifier_idempotent_wellFormed:
  "(isSafeName n \<longrightarrow> escapeIdentifier (escapeIdentifier n) = escapeIdentifier n
                      \<and> escapeIdentifier n = n)
   \<and> (s \<noteq> [] \<longrightarrow> wellFormedIdentifier (escapeIdentifier s))
   \<and> escapeIdentifier [] = []"
proof (intro conjI impI)
  assume "isSafeName n"
  then have "list_all isSafeChar n" by (simp add: isSafeName_def)
  then show "escapeIdentifier (escapeIdentifier n) = escapeIdentifier n"
    and "escapeIdentifier n = n"
    by (simp_all add: escapeIdentifier_safe)
next
  assume ne: "s \<noteq> []"
  show "wellFormedIdentifier (escapeIdentifier s)"
  proof (cases "list_all isSafeChar s")
    case True
    with ne show ?thesis
      by (simp add: escapeIdentifier_safe wellFormedIdentifier_def isSafeName_def)
  next
    case False
    then show ?thesis
      using isQuoted_wrap [OF quotesDoubled_replaceAll, of dq s]
      by (simp add: escapeIdentifier_unsafe wellFormedIdentifier_def)
  qed
next
  show "escapeIdentifier [] = []" by (simp add: escapeIdentifier_def)
qed

lemma isSafeChar_simps:
  "isSafeChar CHR ''u''" "isSafeChar CHR ''s''" "\<not> isSafeChar CHR '' ''" "\<not> isSafeChar dq"
  by (simp_all add: isSafeChar_def dq_def)

theorem escapeIdentifier_idempotent_wellFormed_witness:
  "isSafeName ''us'' \<and> escapeIdentifier (escapeIdentifier ''us'') = ''us''
   \<and> ''a b'' \<noteq> [] \<and> wellFormedIdentifier (escapeIdentifier ''a b'')"
  using escapeIdentifier_idempotent_wellFormed [of "''us''" "''a b''"]
  by (simp add: isSafeName_def isSafeChar_simps)

section \<open>Rendering of comparisons and memberships (C6, C10)\<close>

text \<open>
  C6, as stated, fails: \<open>user_id\<close> has no character outside \<open>[a-zA-Z0-9_]\<close>, so
  \<open>escapeIdentifier\<close> leaves it unquoted and the rendered text is not
  \<open>"user_id" = auth.uid()\<close>.
\<close>

theorem column_eq_auth_uid_quoted_counterexample:
  "toSQL (col_eq ''user_id'' (VCond auth_uid))
     \<noteq> Inr ([dq] @ ''user_id'' @ [dq] @ '' = auth.uid()'')"
  by (simp add: col_eq_def createComparison_def auth_uid_def bindR_def escapeIdentifier_def
      isSafeChar_def operatorMap_def dq_def)

text \<open>
  C6, amended: the condition \<open>column('user_id').eq(auth.uid())\<close> renders exactly the
  text \<open>user_id = auth.uid()\<close>: the column identifier is a safe name and appears
  unquoted, and the auth-context leaf renders as \<open>auth.uid()\<close>.
\<close>

theorem column_eq_auth_uid_renders:
  "toSQL (col_eq ''user_id'' (VCond auth_uid)) = Inr ''user_id = auth.uid()''"
  by (simp add: col_eq_def createComparison_def auth_uid_def bindR_def escapeIdentifier_def
      isSafeChar_def operatorMap_def)

text \<open>
  C10: for every column name \<open>c\<close>, \<open>column(c).in([])\<close> is built without error and
  renders the escaped identifier of \<open>c\<close> followed by \<open>IN ()\<close>, an empty
  parenthesized list.
\<close>

theorem column_in_empty_list:
  "toSQL (col_in c (InList [])) = Inr (escapeIdentifier c @ '' IN ()'')"
  by (simp add: col_in_def bindR_def)

section \<open>The session-variable leaf (C1)\<close>

text \<open>
  C1 at the key \<open>a'b\<close>: the leaf renders the key between single quotes as it is,
  \<open>current_setting('a'b', true)\<close>, where the escaping layer would give
  \<open>current_setting('a''b', true)\<close>; the rendered literal is not a well-formed
  single-quoted literal, the quote of the key ends it.
\<close>

theorem session_get_key_not_escaped:
  "toSQL (session_get ''a'b'' TyText)
     = Inr (''current_setting('' @ [sq] @ ''a'b'' @ [sq] @ '', true)'')
   \<and> escapedSessionSQL ''a'b'' TyText
     = Inr (''current_setting('' @ [sq] @ ''a'' @ [sq, sq] @ ''b'' @ [sq] @ '', true)'')
   \<and> toSQL (session_get ''a'b'' TyText) \<noteq> escapedSessionSQL ''a'b'' TyText
   \<and> \<not> isQuoted sq ([sq] @ ''a'b'' @ [sq])"
  by (simp add: session_get_def escapedSessionSQL_def bindR_def typeCast_def replaceAll_def
      isQuoted_def sq_def)

text \<open>For every key and type the leaf puts the key between single quotes as it is.\<close>

lemma session_get_renders_key_raw:
  "toSQL (session_get key t) = Inr (''current_setting('' @ [sq] @ key @ [sq] @ '', true)'' @ typeCast t)"
  by (simp add: session_get_def)

text \<open>For a key without a single quote the leaf and the escaping layer agree.\<close>

lemma session_get_quote_free:
  assumes "sq \<notin> set key"
  shows "toSQL (session_get key t) = escapedSessionSQL key t"
proof -
  from assms have "replaceAll sq [sq, sq] key = key"
    by (induction key) (auto simp: replaceAll_def)
  then show ?thesis
    by (simp add: session_get_def escapedSessionSQL_def bindR_def)
qed

section \<open>escapeValue (C7)\<close>

text \<open>
  C7 at an invalid date: \<open>escapeValue(new Date(NaN))\<close> takes the \<open>Date\<close> branch and
  \<open>toISOString\<close> raises \<open>RangeError\<close>; the same inside an array, where the
  exception leaves \<open>map\<close>.
\<close>

theorem escapeValue_invalid_date_throws:
  "escapeValue (VDate InvalidDate) = Inl RangeError
   \<and> escapeValue (VArr [VStr ''a'b'', VDate InvalidDate, VNull]) = Inl RangeError"
  by (simp add: toISOString_def bindR_def)

text \<open>The other parts of C7 hold: the mapping by shape, and the example of the specification.\<close>

lemma escapeValue_by_shape:
  "escapeValue VNull = Inr ''NULL''"
  "escapeValue (VBool True) = Inr ''TRUE''"
  "escapeValue (VBool False) = Inr ''FALSE''"
  "escapeValue (VNum n) = Inr (numberToString n)"
  "escapeValue (VDate (ValidDate t)) = Inr ([sq] @ t @ [sq] @ ''::TIMESTAMP'')"
  "escapeValue (VStr s) = Inr ([sq] @ replaceAll sq [sq, sq] s @ [sq])"
  by (simp_all add: toISOString_def bindR_def)

lemma escapeValue_string_quoted: "isQuoted sq ([sq] @ replaceAll sq [sq, sq] s @ [sq])"
  using quotesDoubled_replaceAll [of sq s] by (rule isQuoted_wrap)

lemma escapeValue_array:
  assumes "collect (map escapeValue items) = Inr escapedItems"
  shows "escapeValue (VArr items) = Inr (''ARRAY['' @ join_with '', '' escapedItems @ '']'')"
  using assms by (simp add: bindR_def)

lemma escapeValue_example:
  "escapeValue (VArr [VStr ''a'b'', VNum 1, VNull])
     = Inr (''ARRAY['' @ [sq] @ ''a'' @ [sq, sq] @ ''b'' @ [sq] @ '', 1, NULL]'')"
  by (simp add: bindR_def replaceAll_def numberToString_def decimalDigits.simps digit_char_def
      sq_def)

text \<open>
  \<open>escapeValue\<close>, \<open>toSQL\<close> and \<open>subqueryToSQL\<close> return a text whenever no
  invalid date is inside: the invalid date is the only input on which they throw.
\<close>

lemma collect_map_returns:
  "(\<And>x. x \<in> set xs \<Longrightarrow> \<exists>s. f x = Inr s) \<Longrightarrow> \<exists>ss. collect (map f xs) = Inr ss"
proof (induction xs)
  case Nil
  show ?case by simp
next
  case (Cons x xs)
  from Cons.prems [of x] obtain s where "f x = Inr s" by auto
  moreover from Cons have "\<exists>ss. collect (map f xs) = Inr ss" by simp
  ultimately show ?case by auto
qed

lemma datesValidDef_toSubquery: "datesValidBuilder b \<Longrightarrow> datesValidDef (toSubquery b)"
proof (cases b)
  case (SubqueryBuilder f a s w js)
  assume "datesValidBuilder b"
  with SubqueryBuilder show ?thesis
    apply (cases js)
     apply (simp_all add: datesValidDef_def toSubquery_def toJoinDefinition_def)
    subgoal for j js' by (cases j) simp
    done
qed

lemma returns_if_dates_valid:
  shows "datesValid v \<Longrightarrow> \<exists>s. escapeValue v = Inr s"
    and "datesValidCond c \<Longrightarrow> \<exists>s. toSQL c = Inr s"
    and "datesValidDef sd \<Longrightarrow> \<exists>s. subqueryToSQL sd = Inr s"
proof (induction v and c and sd rule: escapeValue_toSQL_subqueryToSQL.induct)
  case (6 items)
  then have "\<exists>ss. collect (map escapeValue items) = Inr ss"
    by (intro collect_map_returns) (auto simp: list_all_iff)
  then show ?case by (auto simp: bindR_def)
next
  case (12 colName vs)
  then have "\<exists>ss. collect (map escapeValue vs) = Inr ss"
    by (intro collect_map_returns) (auto simp: list_all_iff)
  then show ?case by (auto simp: bindR_def)
next
  case (13 colName builder)
  then show ?case by (auto simp: bindR_def datesValidDef_toSubquery)
next
  case (17 operator flattened)
  then have "\<exists>ss. collect (map toSQL flattened) = Inr ss"
    by (intro collect_map_returns) (auto simp: list_all_iff)
  then show ?case by (auto simp: bindR_def)
next
  case (21 functionName args)
  have "\<exists>ss. collect (map (\<lambda>arg. case arg of
                                   ArgString s \<Rightarrow> Inr (escapeIdentifier s)
                                 | ArgCondition c \<Rightarrow> toSQL c) args) = Inr ss"
  proof (rule collect_map_returns)
    fix x assume "x \<in> set args"
    with 21 show "\<exists>s. (case x of ArgString s \<Rightarrow> Inr (escapeIdentifier s)
                                 | ArgCondition c \<Rightarrow> toSQL c) = Inr s"
      by (cases x) (auto simp: list_all_iff)
  qed
  then show ?case by (auto simp: bindR_def)
next
  case (23 subquery)
  have jn: "\<exists>s. toSQL (jd_on j) = Inr s" if "sd_join subquery = Some j" for j
    using 23(1) [OF refl refl refl refl that] 23(3) that by (simp add: datesValidDef_def)
  have wh: "\<exists>s. toSQL w = Inr s" if "sd_where subquery = Some w" for w
  proof -
    from jn obtain sql1 where
      "(case sd_join subquery of
          None \<Rightarrow> Inr (''SELECT '' @ selectList (sd_select subquery) @ '' FROM '' @
                        escapeIdentifier (sd_from subquery) @ aliasSuffix (sd_alias subquery))
        | Some j \<Rightarrow>
            bindR (toSQL (jd_on j))
              (\<lambda>on. Inr ((''SELECT '' @ selectList (sd_select subquery) @ '' FROM '' @
                           escapeIdentifier (sd_from subquery) @ aliasSuffix (sd_alias subquery)) @
                          '' '' @ joinTypeUpper (jd_type j) @ '' JOIN '' @
                          escapeIdentifier (jd_table j) @ aliasSuffix (jd_alias j) @
                          '' ON '' @ on))) = Inr sql1"
      by (cases "sd_join subquery") (auto simp: bindR_def)
    from 23(2) [OF refl refl refl refl this that] 23(3) that show ?thesis
      by (simp add: datesValidDef_def)
  qed
  show ?case
    using jn wh
    by (subst subqueryToSQL.simps)
      (auto simp: Let_def bindR_def split: option.splits sum.splits)
qed (auto simp: bindR_def toISOString_def split: jsdate.splits)

section \<open>Logical composition (C3)\<close>

lemma chainWith_operands:
  "chainWith l r operator = Logical operator (operands operator l @ operands operator r)"
  by (simp add: chainWith_def flattenConditions_def operands_def)

lemma operands_Logical: "operands operator (Logical operator cs) = cs"
  by (simp add: operands_def)

lemma operands_other: "\<not> isLogical operator c \<Longrightarrow> operands operator c = [c]"
  by (cases c) (auto simp: operands_def isLogical_def)

text \<open>
  C3, as stated, fails when one of the three conditions is itself an AND node: with
  \<open>A = x.and(y)\<close> the chain \<open>A.and(B).and(C)\<close> has the four children \<open>x, y, B, C\<close>,
  not the three children \<open>A, B, C\<close>.
\<close>

theorem and_chain_nested_counterexample:
  "cond_and (cond_and (cond_and (col_isNull ''x'') (col_isNull ''y'')) (col_isNull ''b''))
     (col_isNull ''c'')
   \<noteq> Logical AND [cond_and (col_isNull ''x'') (col_isNull ''y''), col_isNull ''b'',
        col_isNull ''c'']"
  by (simp add: cond_and_def chainWith_def flattenConditions_def col_isNull_def)

text \<open>
  C3, amended: for any three conditions \<open>A\<close>, \<open>B\<close>, \<open>C\<close> none of which is itself a
  logical AND node, \<open>A.and(B).and(C)\<close> is a single AND node whose children are
  exactly \<open>A, B, C\<close> in this order; for any three conditions it is a single AND node
  whose children are the operands of \<open>A\<close>, of \<open>B\<close> and of \<open>C\<close> in this order. In
  general \<open>and\<close>/\<open>or\<close> splice in the children of an operand that is already a logical
  node with the same operator, and append the other side's content after them.
\<close>

theorem and_or_flatten:
  "(\<not> isLogical AND A \<and> \<not> isLogical AND B \<and> \<not> isLogical AND C
      \<longrightarrow> cond_and (cond_and A B) C = Logical AND [A, B, C])
   \<and> cond_and (cond_and A B) C = Logical AND (operands AND A @ operands AND B @ operands AND C)
   \<and> chainWith (Logical operator ls) r operator = Logical operator (ls @ operands operator r)
   \<and> (\<not> isLogical operator l
      \<longrightarrow> chainWith l (Logical operator rs) operator = Logical operator (l # rs))
   \<and> (\<not> isLogical operator l \<and> \<not> isLogical operator r
      \<longrightarrow> chainWith l r operator = Logical operator [l, r])"
  by (simp add: cond_and_def chainWith_operands operands_Logical operands_other)

theorem and_or_flatten_witness:
  "\<not> isLogical AND (col_isNull ''a'') \<and> \<not> isLogical AND (col_isNull ''b'')
   \<and> \<not> isLogical AND (col_isNull ''c'')
   \<and> cond_and (cond_and (col_isNull ''a'') (col_isNull ''b'')) (col_isNull ''c'')
       = Logical AND [col_isNull ''a'', col_isNull ''b'', col_isNull ''c'']
   \<and> \<not> isLogical OR (col_isNull ''a'')
   \<and> chainWith (col_isNull ''a'') (Logical OR [col_isNull ''b'', col_isNull ''c'']) OR
       = Logical OR [col_isNull ''a'', col_isNull ''b'', col_isNull ''c'']"
  using and_or_flatten [of "col_isNull ''a''" "col_isNull ''b''" "col_isNull ''c''" OR "[]"
      "col_isNull ''b''" "col_isNull ''a''" "[col_isNull ''b'', col_isNull ''c'']"]
  by (simp add: isLogical_def col_isNull_def)

section \<open>Table scope of a where-clause (C9)\<close>

text \<open>
  The validator's walk collects exactly the referenced tables; a column \<open>q.c\<close> with
  a plain qualifier \<open>q\<close> references \<open>q\<close>, and a chain references what its two sides
  reference.
\<close>

lemma indexOfAux_first:
  "c \<notin> set q \<Longrightarrow> indexOfAux c (q @ c # rest) i = Some (i + length q)"
  by (induction q arbitrary: i) auto

lemma extractTableFromColumn_qualified:
  assumes "q \<noteq> []" and "CHR ''.'' \<notin> set q" and "hd q \<noteq> dq"
  shows "extractTableFromColumn (q @ ''.'' @ c) = Some q"
proof -
  from assms(1,3) have "quotedTable (q @ ''.'' @ c) = None"
    by (cases q) (simp_all add: quotedTable_def charAt_def)
  moreover from assms(2) have "indexOf (q @ ''.'' @ c) CHR ''.'' 0 = Some (length q)"
    using indexOfAux_first [of "CHR ''.''" q c 0] by (simp add: indexOf_def)
  ultimately show ?thesis
    using assms(1) by (simp add: extractTableFromColumn_def substring_def)
qed

lemma tableOf_qualified:
  assumes "q \<noteq> []" and "CHR ''.'' \<notin> set q" and "hd q \<noteq> dq"
  shows "tableOf (q @ ''.'' @ c) = {q}"
  using extractTableFromColumn_qualified [OF assms, of c] assms(1) by (simp add: tableOf_def)

lemma tableOf_empty: "tableOf [] = {}"
  by (simp add: tableOf_def extractTableFromColumn_def quotedTable_def charAt_def indexOf_def)

lemma set_setAdd: "set (setAdd x xs) = insert x (set xs)"
  by (auto simp: setAdd_def)

lemma set_addTableOf: "set (addTableOf r tables) = set tables \<union> tableOf r"
  by (auto simp: addTableOf_def tableOf_def set_setAdd split: option.splits)

lemma set_fold_union:
  assumes "\<And>x t. x \<in> set xs \<Longrightarrow> set (f x t) = set t \<union> g x"
  shows "set (fold f xs t) = set t \<union> \<Union> (set (map g xs))"
  using assms
proof (induction xs arbitrary: t)
  case Nil
  show ?case by simp
next
  case (Cons x xs)
  have "set (fold f xs (f x t)) = set (f x t) \<union> \<Union> (set (map g xs))"
    by (rule Cons.IH) (rule Cons.prems, simp)
  moreover have "set (f x t) = set t \<union> g x"
    by (rule Cons.prems) simp
  ultimately show ?case by auto
qed

lemma set_traverse: "set (traverse c tables) = set tables \<union> referencedTables c"
proof (induction c tables rule: traverse.induct)
  case (1 column operator v tables)
  show ?case
  proof (cases v)
    case (VCond c)
    from 1 [OF refl VCond] VCond show ?thesis
      by (auto simp: Let_def set_addTableOf)
  qed (auto simp: Let_def set_addTableOf)
next
  case (4 operator conditions tables)
  have "set (fold traverse conditions tables)
          = set tables \<union> \<Union> (set (map referencedTables conditions))"
    by (rule set_fold_union) (rule 4)
  then show ?case by simp
next
  case (7 h tables)
  have "set (fold addTableOf (helperParams h) tables)
          = set tables \<union> \<Union> (set (map tableOf (helperParams h)))"
    by (rule set_fold_union) (rule set_addTableOf)
  then show ?case by simp
next
  case (8 functionName args tables)
  let ?f = "\<lambda>arg tbls. case arg of ArgString s \<Rightarrow> addTableOf s tbls
                                  | ArgCondition c \<Rightarrow> traverse c tbls"
  let ?g = "\<lambda>arg. case arg of ArgString s \<Rightarrow> tableOf s
                             | ArgCondition c \<Rightarrow> referencedTables c"
  have "set (fold ?f args tables) = set tables \<union> \<Union> (set (map ?g args))"
  proof (rule set_fold_union)
    fix x t
    assume mem: "x \<in> set args"
    show "set (?f x t) = set t \<union> ?g x"
    proof (cases x)
      case (ArgString s)
      then show ?thesis by (simp add: set_addTableOf)
    next
      case (ArgCondition c)
      with 8 [OF mem ArgCondition] show ?thesis by simp
    qed
  qed
  then show ?case by simp
qed (simp_all add: set_addTableOf tableOf_empty)

lemma set_extractTableReferences: "set (extractTableReferences c) = referencedTables c"
  by (simp add: extractTableReferences_def set_traverse)

lemma referencedTables_chainWith:
  "referencedTables (chainWith l r operator) = referencedTables l \<union> referencedTables r"
proof -
  have "\<Union> (set (map referencedTables
           (case x of
              Logical op conditions \<Rightarrow> if op = operator then conditions else [x]
            | _ \<Rightarrow> [x]))) = referencedTables x" for x
    by (cases x) simp_all
  then show ?thesis
    by (simp add: chainWith_def flattenConditions_def)
qed

lemma referencedTables_column:
  "referencedTables (col_eq column v) \<supseteq> tableOf column"
  "referencedTables (col_neq column v) \<supseteq> tableOf column"
  "referencedTables (col_gt column v) \<supseteq> tableOf column"
  "referencedTables (col_gte column v) \<supseteq> tableOf column"
  "referencedTables (col_lt column v) \<supseteq> tableOf column"
  "referencedTables (col_lte column v) \<supseteq> tableOf column"
  "referencedTables (col_like column pattern) = tableOf column"
  "referencedTables (col_ilike column pattern) = tableOf column"
  "referencedTables (col_in column vs) = tableOf column"
  "referencedTables (col_contains column v) = tableOf column"
  "referencedTables (col_isNull column) = tableOf column"
  "referencedTables (col_isNotNull column) = tableOf column"
  by (simp_all add: col_eq_def col_neq_def col_gt_def col_gte_def col_lt_def col_lte_def
      createComparison_def col_like_def col_ilike_def col_in_def col_contains_def
      col_isNull_def col_isNotNull_def)

lemma getAvailableTables_from: "\<not> truthy a \<Longrightarrow> getAvailableTables t a [] = [t]"
  by (simp add: getAvailableTables_def orElse_def truthy_def setAdd_def split: option.splits)

lemma validate_where_missing:
  assumes "\<not> truthy a"
    and "missing = filter (\<lambda>table. table \<noteq> t) (extractTableReferences cond)"
    and "missing \<noteq> []"
  shows "validateTableReferences cond t a [] None = Inl (Error (missingJoinMessage missing))"
  using assms
  by (simp add: validateTableReferences_def getAvailableTables_from detectMissingJoins_def
      truthy_def Let_def)

text \<open>
  C9: for every subquery builder on \<open>from(t)\<close>, without alias and with no join
  declared, \<open>where\<close> with a condition that references a table \<open>q\<close> other than \<open>t\<close>
  throws at the call, so the where-clause is not attached. With \<open>missing\<close> the list
  the validator makes of the referenced tables other than \<open>t\<close>, the message names
  each of them and suggests the \<open>.join\<close> call for the first one.
\<close>

theorem where_unavailable_table_scope_error:
  assumes "b_from b = t" and "\<not> truthy (b_fromAlias b)" and "b_joins b = []"
    and "q \<in> referencedTables cond"
    and "q \<noteq> t"
    and "missing = filter (\<lambda>table. table \<noteq> t) (extractTableReferences cond)"
  shows "sb_where b cond =
           Inl (Error (''Missing join(s) for table(s): '' @ join_with '', '' missing @
                       ''. Add a join using .join('' @ [sq] @ missing ! 0 @ [sq] @
                       '', ...) before calling .where()''))
         \<and> q \<in> set missing
         \<and> set missing = referencedTables cond - {t}"
proof -
  from assms(6) have all: "set missing = referencedTables cond - {t}"
    by (auto simp: set_extractTableReferences)
  with assms(4,5) have mem: "q \<in> set missing" by simp
  then have "missing \<noteq> []" by auto
  with assms(2,6) have "validateTableReferences cond t (b_fromAlias b) [] None
      = Inl (Error (missingJoinMessage missing))"
    by (rule validate_where_missing)
  with assms(1,3) have "sb_where b cond = Inl (Error (missingJoinMessage missing))"
    by (simp add: sb_where_def bindR_def)
  with mem all show ?thesis by (simp add: missingJoinMessage_def)
qed

lemma extract_m_col: "extractTableFromColumn ''m.col'' = Some ''m''"
  by (simp add: extractTableFromColumn_def quotedTable_def charAt_def indexOf_def
      substring_def dq_def)

lemma refs_m_col: "extractTableReferences (col_eq ''m.col'' (VNum 1)) = [''m'']"
  by (simp add: extractTableReferences_def col_eq_def createComparison_def addTableOf_def
      extract_m_col setAdd_def)

theorem where_unavailable_table_scope_error_witness:
  "b_from (sb_from ''t'' None) = ''t'' \<and> \<not> truthy (b_fromAlias (sb_from ''t'' None))
   \<and> b_joins (sb_from ''t'' None) = []
   \<and> ''m'' \<in> referencedTables (col_eq ''m.col'' (VNum 1)) \<and> ''m'' \<noteq> ''t''
   \<and> [''m''] = filter (\<lambda>table. table \<noteq> ''t'')
                 (extractTableReferences (col_eq ''m.col'' (VNum 1)))
   \<and> sb_where (sb_from ''t'' None) (col_eq ''m.col'' (VNum 1)) =
       Inl (Error (''Missing join(s) for table(s): m. Add a join using .join('' @ [sq] @
                   ''m'' @ [sq] @ '', ...) before calling .where()''))"
proof -
  have f: "b_from (sb_from ''t'' None) = ''t''"
    and g: "\<not> truthy (b_fromAlias (sb_from ''t'' None))"
    and h: "b_joins (sb_from ''t'' None) = []"
    by (simp_all add: sb_from_def truthy_def)
  have a: "''m'' \<in> referencedTables (col_eq ''m.col'' (VNum 1))"
    by (simp add: col_eq_def createComparison_def tableOf_def extract_m_col)
  have b: "''m'' \<noteq> ''t''"
    by simp
  have c: "[''m''] = filter (\<lambda>table. table \<noteq> ''t'')
                      (extractTableReferences (col_eq ''m.col'' (VNum 1)))"
    by (simp add: refs_m_col)
  have "sb_where (sb_from ''t'' None) (col_eq ''m.col'' (VNum 1)) =
          Inl (Error (''Missing join(s) for table(s): '' @ join_with '', '' [''m''] @
                      ''. Add a join using .join('' @ [sq] @ [''m''] ! 0 @ [sq] @
                      '', ...) before calling .where()''))"
    using where_unavailable_table_scope_error [OF f g h a b c] by (rule conjunct1)
  then have d: "sb_where (sb_from ''t'' None) (col_eq ''m.col'' (VNum 1)) =
       Inl (Error (''Missing join(s) for table(s): m. Add a join using .join('' @ [sq] @
                   ''m'' @ [sq] @ '', ...) before calling .where()''))"
    by simp
  from f g h a b c d show ?thesis by (intro conjI)
qed

section \<open>A second join (C2)\<close>

lemma toSubquery_join:
  "sd_join (toSubquery b) = (case b_joins b of [] \<Rightarrow> None | j # _ \<Rightarrow> Some (toJoinDefinition j))"
  by (simp add: toSubquery_def)

text \<open>
  C2, as stated, fails: on a builder that holds the join on \<open>members\<close>, a second
  call \<open>join('teams', column('tm.project_id').eq('p.id'), 'left', 'tm')\<close> returns the
  builder with both joins, not an error.
\<close>

theorem second_join_accepted_counterexample:
  "sb_join
     (SubqueryBuilder ''projects'' (Some ''p'') (SelectOne ''*'') None
        [JoinEntry ''members'' (Some ''m'') (col_eq ''m.project_id'' (VStr ''p.id''))
           (Some JInner)])
     ''teams'' (col_eq ''tm.project_id'' (VStr ''p.id'')) (Some JLeft) (Some ''tm'')
   = Inr (SubqueryBuilder ''projects'' (Some ''p'') (SelectOne ''*'') None
        [JoinEntry ''members'' (Some ''m'') (col_eq ''m.project_id'' (VStr ''p.id''))
           (Some JInner),
         JoinEntry ''teams'' (Some ''tm'') (col_eq ''tm.project_id'' (VStr ''p.id''))
           (Some JLeft)])"
  by (simp add: sb_join_def bindR_def validateTableReferences_def getAvailableTables_def
      detectMissingJoins_def extractTableReferences_def col_eq_def createComparison_def
      addTableOf_def extractTableFromColumn_def quotedTable_def charAt_def indexOf_def
      substring_def setAdd_def orElse_def truthy_def Let_def dq_def)

text \<open>
  C2, amended: for every SubqueryBuilder that already holds one join \<open>j\<close>, a second
  call to \<open>join\<close> is decided by the table-reference validation of its ON-clause
  alone: when the validation passes the call succeeds and the builder holds both
  joins, when it fails the call throws the validation's error. The
  SubqueryDefinition made by \<open>toSubquery\<close> never holds more than one join: before
  and after the second call it holds the first join \<open>j\<close>, which is not overwritten;
  the second join is left out of it.
\<close>

theorem second_join_kept_in_builder_first_in_definition:
  assumes "b_joins b = [j]"
    and "b' = SubqueryBuilder (b_from b) (b_fromAlias b) (b_select b) (b_where b)
               [j, JoinEntry table on_alias on
                     (Some (case type of None \<Rightarrow> JInner | Some t \<Rightarrow> t))]"
    and "v = validateTableReferences on (b_from b) (b_fromAlias b) [j]
               (Some (orElse on_alias table))"
  shows "(v = Inr () \<longrightarrow> sb_join b table on type on_alias = Inr b')
         \<and> (\<forall>e. v = Inl e \<longrightarrow> sb_join b table on type on_alias = Inl e)
         \<and> sd_join (toSubquery b) = Some (toJoinDefinition j)
         \<and> sd_join (toSubquery b') = Some (toJoinDefinition j)"
  using assms by (simp add: sb_join_def bindR_def toSubquery_def)

theorem second_join_kept_in_builder_first_in_definition_witness:
  "b_joins (SubqueryBuilder ''projects'' (Some ''p'') (SelectOne ''*'') None
        [JoinEntry ''members'' (Some ''m'') (col_eq ''m.project_id'' (VStr ''p.id''))
           (Some JInner)])
     = [JoinEntry ''members'' (Some ''m'') (col_eq ''m.project_id'' (VStr ''p.id''))
          (Some JInner)]
   \<and> validateTableReferences (col_eq ''tm.project_id'' (VStr ''p.id'')) ''projects'' (Some ''p'')
        [JoinEntry ''members'' (Some ''m'') (col_eq ''m.project_id'' (VStr ''p.id''))
           (Some JInner)]
        (Some (orElse (Some ''tm'') ''teams'')) = Inr ()
   \<and> sb_join
        (SubqueryBuilder ''projects'' (Some ''p'') (SelectOne ''*'') None
          [JoinEntry ''members'' (Some ''m'') (col_eq ''m.project_id'' (VStr ''p.id''))
             (Some JInner)])
        ''teams'' (col_eq ''tm.project_id'' (VStr ''p.id'')) (Some JLeft) (Some ''tm'')
      = Inr (SubqueryBuilder ''projects'' (Some ''p'') (SelectOne ''*'') None
          [JoinEntry ''members'' (Some ''m'') (col_eq ''m.project_id'' (VStr ''p.id''))
             (Some JInner),
           JoinEntry ''teams'' (Some ''tm'') (col_eq ''tm.project_id'' (VStr ''p.id''))
             (Some JLeft)])
   \<and> sd_join (toSubquery (SubqueryBuilder ''projects'' (Some ''p'') (SelectOne ''*'') None
          [JoinEntry ''members'' (Some ''m'') (col_eq ''m.project_id'' (VStr ''p.id''))
             (Some JInner),
           JoinEntry ''teams'' (Some ''tm'') (col_eq ''tm.project_id'' (VStr ''p.id''))
             (Some JLeft)]))
      = Some (toJoinDefinition
          (JoinEntry ''members'' (Some ''m'') (col_eq ''m.project_id'' (VStr ''p.id''))
             (Some JInner)))"
proof -
  have v: "validateTableReferences (col_eq ''tm.project_id'' (VStr ''p.id'')) ''projects''
        (Some ''p'')
        [JoinEntry ''members'' (Some ''m'') (col_eq ''m.project_id'' (VStr ''p.id''))
           (Some JInner)]
        (Some (orElse (Some ''tm'') ''teams'')) = Inr ()"
    by (simp add: validateTableReferences_def getAvailableTables_def
      detectMissingJoins_def extractTableReferences_def col_eq_def createComparison_def
      addTableOf_def extractTableFromColumn_def quotedTable_def charAt_def indexOf_def
      substring_def setAdd_def orElse_def truthy_def Let_def dq_def)
  show ?thesis
    using v second_join_kept_in_builder_first_in_definition
      [of "SubqueryBuilder ''projects'' (Some ''p'') (SelectOne ''*'') None
            [JoinEntry ''members'' (Some ''m'') (col_eq ''m.project_id'' (VStr ''p.id''))
               (Some JInner)]"
          "JoinEntry ''members'' (Some ''m'') (col_eq ''m.project_id'' (VStr ''p.id''))
             (Some JInner)"
          _ "''teams''" "Some ''tm''" "col_eq ''tm.project_id'' (VStr ''p.id'')"
          "Some JLeft", OF _ refl refl]
    by simp
qed

section \<open>The policy builder: allow and toSQL (C4, C5)\<close>

text \<open>
  C4: for every condition and every operation, \<open>allow(cond)\<close> right after
  \<open>for(operation)\<close> sets these predicate slots: for INSERT, WITH CHECK only, and
  the rendered statement has the WITH CHECK clause and no USING clause; for SELECT
  or DELETE, USING only; for UPDATE or ALL, both USING and WITH CHECK, to the same
  condition.
\<close>

theorem allow_places_condition_by_operation:
  assumes "p = policy_allow (policy_for (policy_on (createPolicy name) table) operation) cond"
  shows "(operation = ForInsert \<longrightarrow> p_using p = None \<and> p_withCheck p = Some cond)
       \<and> (operation = ForSelect \<or> operation = ForDelete
            \<longrightarrow> p_using p = Some cond \<and> p_withCheck p = None)
       \<and> (operation = ForUpdate \<or> operation = ForAll
            \<longrightarrow> p_using p = Some cond \<and> p_withCheck p = Some cond)
       \<and> (operation = ForInsert \<and> toSQL cond = Inr s
            \<longrightarrow> policy_toSQL p =
                 Inr (''CREATE POLICY '' @ [dq] @ name @ [dq] @ '' ON '' @ [dq] @ table @ [dq] @
                      '' FOR INSERT WITH CHECK ('' @ s @ '')''))"
  using assms
  by (auto simp: policy_allow_def policy_for_def policy_on_def createPolicy_def policy_when_def
      policy_withCheck_def policy_toSQL_def predicateClause_def policyHeader_def
      operationKeyword_def bindR_def)

theorem allow_places_condition_by_operation_witness:
  "p_using (policy_allow (policy_for (policy_on (createPolicy ''ins'') ''docs'') ForInsert)
             (col_eq ''user_id'' (VCond auth_uid))) = None
   \<and> p_withCheck (policy_allow (policy_for (policy_on (createPolicy ''ins'') ''docs'') ForInsert)
             (col_eq ''user_id'' (VCond auth_uid))) = Some (col_eq ''user_id'' (VCond auth_uid))
   \<and> toSQL (col_eq ''user_id'' (VCond auth_uid)) = Inr ''user_id = auth.uid()''
   \<and> policy_toSQL (policy_allow (policy_for (policy_on (createPolicy ''ins'') ''docs'') ForInsert)
             (col_eq ''user_id'' (VCond auth_uid)))
       = Inr (''CREATE POLICY '' @ [dq] @ ''ins'' @ [dq] @ '' ON '' @ [dq] @ ''docs'' @ [dq] @
              '' FOR INSERT WITH CHECK (user_id = auth.uid())'')"
proof -
  have r: "toSQL (col_eq ''user_id'' (VCond auth_uid)) = Inr ''user_id = auth.uid()''"
    by (simp add: col_eq_def createComparison_def auth_uid_def bindR_def escapeIdentifier_def
      isSafeChar_def operatorMap_def)
  show ?thesis
    using r allow_places_condition_by_operation
      [of _ "''ins''" "''docs''" ForInsert "col_eq ''user_id'' (VCond auth_uid)"
          "''user_id = auth.uid()''", OF refl]
    by simp
qed

lemma applyStep_keeps_no_predicate:
  assumes "\<not> setsPredicate step" and "p_using p = None" and "p_withCheck p = None"
  shows "p_using (applyStep p step) = None \<and> p_withCheck (applyStep p step) = None"
  using assms
  by (cases step)
    (simp_all add: applyStep_def setsPredicate_def policy_to_def policy_restrictive_def
      policy_description_def)

lemma foldl_keeps_no_predicate:
  "list_all (\<lambda>step. \<not> setsPredicate step) steps \<Longrightarrow> p_using p = None \<Longrightarrow> p_withCheck p = None
   \<Longrightarrow> p_using (foldl applyStep p steps) = None \<and> p_withCheck (foldl applyStep p steps) = None"
proof (induction steps arbitrary: p)
  case Nil
  then show ?case by simp
next
  case (Cons step steps)
  from Cons.prems have "\<not> setsPredicate step" by simp
  with Cons.prems have "p_using (applyStep p step) = None \<and> p_withCheck (applyStep p step) = None"
    by (simp add: applyStep_keeps_no_predicate)
  with Cons show ?case by simp
qed

text \<open>
  C5: a policy made by \<open>createPolicy\<close>, \<open>on\<close>, \<open>for\<close> and then any calls none of
  which is \<open>when\<close>, \<open>allow\<close> or \<open>withCheck\<close> has neither USING nor WITH CHECK, and
  \<open>toSQL\<close> fails on it with the structural error instead of rendering a statement
  without predicate.
\<close>

theorem policy_without_predicate_fails:
  assumes "list_all (\<lambda>step. \<not> setsPredicate step) steps"
  shows "policy_toSQL
           (foldl applyStep (policy_for (policy_on (createPolicy name) table) operation) steps)
         = Inl StructuralError"
proof -
  let ?p0 = "policy_for (policy_on (createPolicy name) table) operation"
  have "p_using ?p0 = None" "p_withCheck ?p0 = None"
    by (simp_all add: policy_for_def policy_on_def createPolicy_def)
  with assms have "p_using (foldl applyStep ?p0 steps) = None
      \<and> p_withCheck (foldl applyStep ?p0 steps) = None"
    by (rule foldl_keeps_no_predicate)
  then show ?thesis by (simp add: policy_toSQL_def)
qed

theorem policy_without_predicate_fails_witness:
  "list_all (\<lambda>step. \<not> setsPredicate step)
     [StepTo ''authenticated'', StepRestrictive, StepDescription ''d'']
   \<and> policy_toSQL
       (foldl applyStep (policy_for (policy_on (createPolicy ''p'') ''documents'') ForSelect)
          [StepTo ''authenticated'', StepRestrictive, StepDescription ''d''])
     = Inl StructuralError"
  using policy_without_predicate_fails
    [of "[StepTo ''authenticated'', StepRestrictive, StepDescription ''d'']"
      "''p''" "''documents''" ForSelect]
  by (simp add: setsPredicate_def)

end
